theory Spec2Isabelle
  imports Main "HOL-Library.Sublist"
begin

section \<open>Values shared by both packages\<close>

text \<open>
  Go byte slices and strings are lists of 8-bit characters. A Go \<open>error\<close> value is
  modelled by the two things the code observes of it: whether \<open>os.IsNotExist\<close>
  holds of it, and its message (\<open>err.Error()\<close>). A nil error is \<open>None\<close>.
\<close>

type_synonym bytes = string

datatype error = GoError (notExist: bool) (msg: string)

text \<open>\<open>os.IsNotExist(err)\<close>: false for a nil error.\<close>

definition IsNotExist :: "error option \<Rightarrow> bool" where
  "IsNotExist err = (case err of None \<Rightarrow> False | Some e \<Rightarrow> notExist e)"

text \<open>The verb \<open>%s\<close> of package fmt applied to an error value; a nil error prints as
  \<open>%!s(<nil>)\<close>.\<close>

definition fmt_s :: "error option \<Rightarrow> string" where
  "fmt_s err = (case err of None \<Rightarrow> ''%!s(<nil>)'' | Some e \<Rightarrow> msg e)"

text \<open>\<open>fmt.Errorf(pre + "%s", err)\<close>: a fresh error, not a not-exist error.\<close>

definition Errorf :: "string \<Rightarrow> error option \<Rightarrow> error" where
  "Errorf pre err = GoError False (pre @ fmt_s err)"

text \<open>Decimal rendering of a non-negative integer, as \<open>fmt\<close> prints an \<open>int64\<close>.\<close>

definition digit :: "nat \<Rightarrow> char" where
  "digit d = ''0123456789'' ! d"

fun decimal :: "nat \<Rightarrow> string" where
  "decimal n = (if n < 10 then [digit n] else decimal (n div 10) @ [digit (n mod 10)])"

declare decimal.simps [simp del]

section \<open>Standard-library functions on byte strings and paths\<close>

text \<open>
  \<open>bytes.Replace(s, old, new, -1)\<close> for a non-empty \<open>old\<close>: the non-overlapping
  occurrences of \<open>old\<close> are replaced from left to right. Every call of the program
  passes a non-empty literal for \<open>old\<close>; for an empty \<open>old\<close> (where Go inserts
  \<open>new\<close> between UTF-8 sequences) the model returns \<open>s\<close> and is not used.
\<close>

function Replace :: "bytes \<Rightarrow> bytes \<Rightarrow> bytes \<Rightarrow> bytes" where
  "Replace s old new =
     (if s = [] \<or> old = [] then s
      else if prefix old s then new @ Replace (drop (length old) s) old new
      else hd s # Replace (tl s) old new)"
  by pat_completeness auto
termination
  by (relation "measure (\<lambda>(s, old, new). length s)") (auto simp: neq_Nil_conv)

declare Replace.simps [simp del]

text \<open>The address literals of \<open>director.go\<close>.\<close>

definition vpnkitNameserverIP :: string where
  "vpnkitNameserverIP = ''192.168.65.1''"

definition vpnkitHostIP :: string where
  "vpnkitHostIP = ''192.168.65.2''"

definition vpnkitInternalIP :: string where
  "vpnkitInternalIP = ''192.168.65.3''"

definition kvmNameserverIP :: string where
  "kvmNameserverIP = ''192.168.122.1''"

text \<open>
  The two replacements \<open>DeployBosh\<close> applies to the director configuration on
  linux (lines 67 and 69), in the order of the source.
\<close>

definition kvmSubst :: "string \<Rightarrow> bytes \<Rightarrow> bytes" where
  "kvmSubst ip directorContents =
     Replace (Replace directorContents (vpnkitInternalIP @ '':9999'') (ip @ '':9999''))
       vpnkitNameserverIP kvmNameserverIP"


text \<open>
  Package \<open>path/filepath\<close> with the separator \<open>/\<close> (the rules of linux and
  darwin). \<open>Base\<close> returns the last element of a path: trailing separators are
  dropped first, the empty path gives \<open>.\<close> and a path of separators only gives
  \<open>/\<close>.
\<close>

definition isSep :: "char \<Rightarrow> bool" where
  "isSep ch = (ch = CHR ''/'')"

definition Base :: "string \<Rightarrow> string" where
  "Base path =
     (if path = [] then ''.''
      else let p = rev (dropWhile isSep (rev path));
               q = rev (takeWhile (\<lambda>ch. \<not> isSep ch) (rev p))
           in if q = [] then ''/'' else q)"

text \<open>\<open>strings.Split(s, sep)\<close> for a separator of one character: never empty.\<close>

fun splitOn :: "char \<Rightarrow> string \<Rightarrow> string list" where
  "splitOn ch [] = [[]]"
| "splitOn ch (x # xs) =
     (if x = ch then [] # splitOn ch xs
      else (case splitOn ch xs of [] \<Rightarrow> [[x]] | y # ys \<Rightarrow> (x # y) # ys))"

text \<open>\<open>strings.Join(elems, sep)\<close>.\<close>

fun joinWith :: "string \<Rightarrow> string list \<Rightarrow> string" where
  "joinWith sep [] = []"
| "joinWith sep [x] = x"
| "joinWith sep (x # y # ys) = x @ sep @ joinWith sep (y # ys)"

text \<open>
  \<open>filepath.Clean\<close>, element by element: empty elements and \<open>.\<close> are dropped;
  \<open>..\<close> removes the element before it when that is not itself \<open>..\<close>, is
  dropped at the root of a rooted path, and is kept at the start of a path that is not
  rooted. \<open>out\<close> holds the elements kept so far, the last one first.
\<close>

fun cleanElems :: "bool \<Rightarrow> string list \<Rightarrow> string list \<Rightarrow> string list" where
  "cleanElems rooted out [] = rev out"
| "cleanElems rooted out (e # es) =
     (if e = [] \<or> e = ''.'' then cleanElems rooted out es
      else if e = ''..'' then
        (if out \<noteq> [] \<and> hd out \<noteq> ''..'' then cleanElems rooted (tl out) es
         else if rooted then cleanElems rooted out es
         else cleanElems rooted (''..'' # out) es)
      else cleanElems rooted (e # out) es)"

definition Clean :: "string \<Rightarrow> string" where
  "Clean path =
     (if path = [] then ''.''
      else let rooted = isSep (hd path);
               out = (if rooted then ''/'' else []) @
                     joinWith ''/'' (cleanElems rooted [] (splitOn (CHR ''/'') path))
           in if out = [] then ''.'' else out)"

text \<open>\<open>filepath.Dir\<close>: everything up to and including the last separator, cleaned.\<close>

definition Dir :: "string \<Rightarrow> string" where
  "Dir path = Clean (rev (dropWhile (\<lambda>ch. \<not> isSep ch) (rev path)))"

text \<open>\<open>filepath.Join\<close>: leading empty elements are ignored, the rest is joined by
  the separator and cleaned; no element at all gives the empty string.\<close>

fun Join :: "string list \<Rightarrow> string" where
  "Join [] = []"
| "Join (e # es) = (if e = [] then Join es else Clean (joinWith ''/'' (e # es)))"

section \<open>The world the program acts on\<close>

text \<open>
  The local file system is a map from paths to contents. Everything the program does
  to a collaborator outside its own process is appended to a trace: the dial attempts,
  the channels opened on the connection, the remote commands run (each with the bytes
  its standard input received and the error \<open>session.Run\<close> returned), what is
  printed to the process's own standard output, the pause before the deployment, and
  the local commands started.
\<close>

datatype event =
    Dial string "error option"
  | NewSession "error option"
  | Exec string bytes "error option"
  | SessionClose
  | ClientClose
  | Print string
  | Sleep nat
  | BoshOutput "string list" "error option"
  | ExecLocal string "string list" "error option"

record world =
  files :: "string \<Rightarrow> bytes option"
  trace :: "event list"

definition emit :: "event \<Rightarrow> world \<Rightarrow> world" where
  "emit ev w = w\<lparr>trace := trace w @ [ev]\<rparr>"

text \<open>The events added between an earlier world and a later one.\<close>

definition newEvents :: "world \<Rightarrow> world \<Rightarrow> event list" where
  "newEvents w w' = drop (length (trace w)) (trace w')"

datatype stream = Stdout | Stderr

text \<open>
  The collaborators are parameters. Those on the far side of the connection, and the
  local commands, may answer differently each time, so they are given the trace so
  far. \<open>selectTicks\<close> is the schedule of \<open>waitForSSH\<close>: how many times its
  \<open>select\<close> serves the ticker before it serves the timeout of the given duration.
  \<open>stdinLimit\<close> is the number of bytes the channel of a session accepts on its
  standard input before writes to it fail, with the error they then return; \<open>None\<close>
  is a channel that accepts everything. \<open>sessionRun\<close> gives, for a command and the
  bytes of its standard input, the error of \<open>session.Run\<close> and the output of the
  command in the order of arrival. The fault parameters make a local file operation
  fail for a reason other than the path being absent. \<open>StatusRunning\<close> and
  \<open>TrimSpace\<close> stand for \<open>program.StatusRunning\<close> and \<open>strings.TrimSpace\<close>.
  Commands started by the program are taken not to change the files of the model.
\<close>

record env =
  ParsePrivateKey :: "bytes \<Rightarrow> error option"
  sshDial :: "event list \<Rightarrow> string \<Rightarrow> error option"
  selectTicks :: "nat \<Rightarrow> nat"
  newSession :: "event list \<Rightarrow> error option"
  StdinPipe :: "event list \<Rightarrow> error option"
  stdinLimit :: "event list \<Rightarrow> (nat \<times> error) option"
  sessionRun :: "event list \<Rightarrow> string \<Rightarrow> bytes \<Rightarrow> error option \<times> (stream \<times> bytes) list"
  readFault :: "string \<Rightarrow> error option"
  createFault :: "string \<Rightarrow> error option"
  writeFault :: "string \<Rightarrow> error option"
  removeFault :: "string \<Rightarrow> error option"
  driverIP :: "error + string"
  boshOutput :: "event list \<Rightarrow> string list \<Rightarrow> error option"
  execCommand :: "event list \<Rightarrow> string \<Rightarrow> string list \<Rightarrow> bytes \<times> error option"
  StatusRunning :: string
  TrimSpace :: "string \<Rightarrow> string"

text \<open>
  A process that ends by an unrecovered panic returns nothing: \<open>Crashed\<close> keeps the
  world at that moment.
\<close>

datatype 'a outcome = Returned 'a | Crashed world

subsection \<open>Package os and io/ioutil\<close>

definition ErrNotExist :: "string \<Rightarrow> string \<Rightarrow> error" where
  "ErrNotExist opname path =
     GoError True (opname @ '' '' @ path @ '': no such file or directory'')"

definition Stat :: "string \<Rightarrow> world \<Rightarrow> error option" where
  "Stat path w = (if files w path = None then Some (ErrNotExist ''stat'' path) else None)"

definition ReadFile :: "env \<Rightarrow> string \<Rightarrow> world \<Rightarrow> error + bytes" where
  "ReadFile env path w =
     (case readFault env path of
        Some err \<Rightarrow> Inl err
      | None \<Rightarrow>
          (case files w path of
             None \<Rightarrow> Inl (ErrNotExist ''open'' path)
           | Some data \<Rightarrow> Inr data))"

text \<open>\<open>os.Create\<close>: the file exists and is empty afterwards.\<close>

definition Create :: "env \<Rightarrow> string \<Rightarrow> world \<Rightarrow> error + world" where
  "Create env path w =
     (case createFault env path of
        Some err \<Rightarrow> Inl err
      | None \<Rightarrow> Inr (w\<lparr>files := (files w)(path \<mapsto> [])\<rparr>))"

definition WriteFile :: "env \<Rightarrow> string \<Rightarrow> bytes \<Rightarrow> world \<Rightarrow> error + world" where
  "WriteFile env path data w =
     (case writeFault env path of
        Some err \<Rightarrow> Inl err
      | None \<Rightarrow> Inr (w\<lparr>files := (files w)(path \<mapsto> data)\<rparr>))"


text \<open>A write through an open file appends to the contents under its path.\<close>

definition fileWrite :: "string \<Rightarrow> bytes \<Rightarrow> world \<Rightarrow> world" where
  "fileWrite path bs w =
     w\<lparr>files := (files w)(path \<mapsto> (case files w path of None \<Rightarrow> bs | Some old \<Rightarrow> old @ bs))\<rparr>"

section \<open>Package provision: the SSH session\<close>

text \<open>
  The struct \<open>SSH\<close>. The client is the address it is connected to; the two
  writers are open local files, as \<open>DeployBosh\<close> supplies them, named by their
  paths.
\<close>

record SSH =
  client :: "string option"
  stdout :: string
  stderr :: string
  Error :: "error option"

definition Second :: nat where
  "Second = 1000000000"

text \<open>
  The loop of the goroutine of \<open>waitForSSH\<close> (lines 293 to 308). Its first
  argument counts the rounds in which \<open>select\<close> still serves the ticker; when it
  is used up the timeout is served. \<open>err\<close> is the variable of that name: the error
  of the last attempt. The result is the pair received from the two channels.
\<close>

fun dialLoop ::
  "env \<Rightarrow> string \<Rightarrow> nat \<Rightarrow> error option \<Rightarrow> world \<Rightarrow> (string option \<times> error option) \<times> world"
where
  "dialLoop env addr 0 err w =
     ((None, Some (Errorf ''ssh connection timed out: '' err)), w)"
| "dialLoop env addr (Suc n) err w =
     (case sshDial env (trace w) addr of
        None \<Rightarrow> ((Some addr, None), emit (Dial addr None) w)
      | Some e \<Rightarrow> dialLoop env addr n (Some e) (emit (Dial addr (Some e)) w))"

definition waitForSSH ::
  "env \<Rightarrow> string \<Rightarrow> string \<Rightarrow> bytes \<Rightarrow> nat \<Rightarrow> world \<Rightarrow> (string option \<times> error option) \<times> world"
where
  "waitForSSH env ip port privateKey timeout w =
     (case ParsePrivateKey env privateKey of
        Some err \<Rightarrow> ((None, Some (Errorf ''could not parse private key: '' (Some err))), w)
      | None \<Rightarrow> dialLoop env (ip @ '':'' @ port) (selectTicks env timeout) None w)"

definition NewSSH ::
  "env \<Rightarrow> string \<Rightarrow> string \<Rightarrow> bytes \<Rightarrow> nat \<Rightarrow> string \<Rightarrow> string \<Rightarrow> world \<Rightarrow> (error + SSH) \<times> world"
where
  "NewSSH env ip port key timeout out errw w =
     (case waitForSSH env ip port key timeout w of
        ((cl, Some err), w') \<Rightarrow> (Inl err, w')
      | ((cl, None), w') \<Rightarrow>
          (Inr \<lparr>client = cl, stdout = out, stderr = errw, Error = None\<rparr>, w'))"

definition Close :: "SSH \<Rightarrow> world \<Rightarrow> world" where
  "Close s w = emit ClientClose w"

text \<open>
  \<open>session.Run\<close> on a channel whose standard output and standard error are the
  files \<open>out\<close> and \<open>errw\<close>: the command runs with the given input, its output is
  written to the two files as it arrives, and the error is returned.
\<close>

fun deliver :: "string \<Rightarrow> string \<Rightarrow> (stream \<times> bytes) list \<Rightarrow> world \<Rightarrow> world" where
  "deliver out errw [] w = w"
| "deliver out errw ((st, bs) # rest) w =
     deliver out errw rest (fileWrite (case st of Stdout \<Rightarrow> out | Stderr \<Rightarrow> errw) bs w)"

definition session_Run ::
  "env \<Rightarrow> string \<Rightarrow> string \<Rightarrow> string \<Rightarrow> bytes \<Rightarrow> world \<Rightarrow> error option \<times> world"
where
  "session_Run env out errw command input w =
     (let (err, chunks) = sessionRun env (trace w) command input
      in (err, deliver out errw chunks (emit (Exec command input err) w)))"

definition Run :: "env \<Rightarrow> string \<Rightarrow> SSH \<times> world \<Rightarrow> SSH \<times> world" where
  "Run env command sw =
     (let (s, w) = sw in
      if Error s \<noteq> None then (s, w)
      else
        (case newSession env (trace w) of
           Some err \<Rightarrow> (s\<lparr>Error := Some err\<rparr>, emit (NewSession (Some err)) w)
         | None \<Rightarrow>
             (let (err, w') =
                    session_Run env (stdout s) (stderr s) command [] (emit (NewSession None) w)
              in (s\<lparr>Error := err\<rparr>, emit SessionClose w'))))"

text \<open>
  One \<open>Write\<close> on the standard-input pipe of a session: \<open>sent\<close> are the bytes
  the channel has accepted so far. Past the limit the write accepts what still fits and
  returns the error.
\<close>

definition pipeWrite :: "(nat \<times> error) option \<Rightarrow> bytes \<Rightarrow> bytes \<Rightarrow> bytes \<times> error option" where
  "pipeWrite lim sent bs =
     (case lim of
        None \<Rightarrow> (sent @ bs, None)
      | Some (n, e) \<Rightarrow>
          if length sent + length bs \<le> n then (sent @ bs, None)
          else (sent @ take (n - length sent) bs, Some e))"

text \<open>
  The three writes of the goroutine of \<open>SendData\<close> (lines 227 to 233) on a pipe with
  the given limit: the header by \<open>Fprintln\<close>, whose error is dropped; the payload by
  \<open>io.Copy\<close>, which for an empty payload writes nothing and whose error is kept for
  printing; the end marker by \<open>Fprintln\<close>, whose error is dropped. The result is the
  bytes the channel accepted and the error of the copy.
\<close>

definition scpHeader :: "bytes \<Rightarrow> string \<Rightarrow> bytes" where
  "scpHeader srcData remoteFilePath =
     ''C0755'' @ '' '' @ decimal (length srcData) @ '' '' @ Base remoteFilePath @ [CHR 0x0A]"

definition scpWrites :: "(nat \<times> error) option \<Rightarrow> bytes \<Rightarrow> string \<Rightarrow> bytes \<times> error option" where
  "scpWrites lim srcData remoteFilePath =
     (let (b1, e1) = pipeWrite lim [] (scpHeader srcData remoteFilePath);
          (b2, err) = (if srcData = [] then (b1, None) else pipeWrite lim b1 srcData);
          (b3, e3) = pipeWrite lim b2 [CHR 0x00, CHR 0x0A]
      in (b3, err))"

text \<open>
  The goroutine as a whole. When \<open>StdinPipe\<close> fails its error is discarded and
  \<open>w\<close> is nil, so the goroutine panics at its first use of \<open>w\<close> and the process
  ends: the result is \<open>None\<close>.
\<close>

definition writer :: "env \<Rightarrow> event list \<Rightarrow> bytes \<Rightarrow> string \<Rightarrow> (bytes \<times> error option) option" where
  "writer env tr srcData remoteFilePath =
     (case StdinPipe env tr of
        Some e \<Rightarrow> None
      | None \<Rightarrow> Some (scpWrites (stdinLimit env tr) srcData remoteFilePath))"

text \<open>
  \<open>SendData\<close>. The goroutine and \<open>session.Run\<close> run side by side; the model
  lets the goroutine finish first, so the command sees all the bytes the channel
  accepted. The error of \<open>session.Run\<close> is dropped (line 239) and the error of the
  copy is printed (line 230).
\<close>

definition SendData :: "env \<Rightarrow> bytes \<Rightarrow> string \<Rightarrow> SSH \<times> world \<Rightarrow> (SSH \<times> world) outcome" where
  "SendData env srcData remoteFilePath sw =
     (let (s, w) = sw in
      if Error s \<noteq> None then Returned (s, w)
      else
        (case newSession env (trace w) of
           Some err \<Rightarrow> Returned (s\<lparr>Error := Some err\<rparr>, emit (NewSession (Some err)) w)
         | None \<Rightarrow>
             (let w1 = emit (NewSession None) w in
              case writer env (trace w1) srcData remoteFilePath of
                None \<Rightarrow> Crashed w1
              | Some (input, cerr) \<Rightarrow>
                  (let w2 = (case cerr of None \<Rightarrow> w1 | Some e \<Rightarrow> emit (Print (msg e)) w1);
                       command = ''/usr/bin/scp -qt '' @ Dir remoteFilePath;
                       (err, w3) = session_Run env (stdout s) (stderr s) command input w2
                   in Returned (s, emit SessionClose w3)))))"

definition SendFile :: "env \<Rightarrow> string \<Rightarrow> string \<Rightarrow> SSH \<times> world \<Rightarrow> (SSH \<times> world) outcome" where
  "SendFile env filePath remoteFilePath sw =
     (let (s, w) = sw in
      if Error s \<noteq> None then Returned (s, w)
      else
        (case ReadFile env filePath w of
           Inl err \<Rightarrow> Returned (s\<lparr>Error := Some err\<rparr>, w)
         | Inr data \<Rightarrow> SendData env data remoteFilePath (s, w)))"

definition RetrieveFile :: "env \<Rightarrow> string \<Rightarrow> string \<Rightarrow> SSH \<times> world \<Rightarrow> SSH \<times> world" where
  "RetrieveFile env filePath remoteFilePath sw =
     (let (s, w) = sw in
      if Error s \<noteq> None then (s, w)
      else
        (case Create env filePath w of
           Inl err \<Rightarrow> (s\<lparr>Error := Some err\<rparr>, w)
         | Inr w1 \<Rightarrow>
             (case newSession env (trace w1) of
                Some err \<Rightarrow> (s\<lparr>Error := Some err\<rparr>, emit (NewSession (Some err)) w1)
              | None \<Rightarrow>
                  (let (err, w2) =
                         session_Run env filePath (stderr s) (''cat '' @ remoteFilePath) []
                           (emit (NewSession None) w1)
                   in (s\<lparr>Error := err\<rparr>, emit SessionClose w2)))))"

subsection \<open>Sequences of session operations\<close>

datatype op =
    OpRun string
  | OpSendFile string string
  | OpSendData bytes string
  | OpRetrieveFile string string

fun exec_op :: "env \<Rightarrow> op \<Rightarrow> SSH \<times> world \<Rightarrow> (SSH \<times> world) outcome" where
  "exec_op env (OpRun command) sw = Returned (Run env command sw)"
| "exec_op env (OpSendFile filePath remoteFilePath) sw = SendFile env filePath remoteFilePath sw"
| "exec_op env (OpSendData srcData remoteFilePath) sw = SendData env srcData remoteFilePath sw"
| "exec_op env (OpRetrieveFile filePath remoteFilePath) sw =
     Returned (RetrieveFile env filePath remoteFilePath sw)"

fun exec_ops :: "env \<Rightarrow> op list \<Rightarrow> SSH \<times> world \<Rightarrow> (SSH \<times> world) outcome" where
  "exec_ops env [] sw = Returned sw"
| "exec_ops env (x # xs) sw =
     (case exec_op env x sw of
        Returned sw' \<Rightarrow> exec_ops env xs sw'
      | Crashed w \<Rightarrow> Crashed w)"

text \<open>
  The failure an operation meets when it is entered with an empty error slot, read off
  the answers of the collaborators: the error of reading or creating the local file,
  the error of opening the channel, and, for \<open>Run\<close> and \<open>RetrieveFile\<close>, the
  error of \<open>session.Run\<close>. For an upload the errors of the writer and of the
  receiving command are not among them.
\<close>

fun opFailure :: "env \<Rightarrow> op \<Rightarrow> world \<Rightarrow> error option" where
  "opFailure env (OpRun command) w =
     (case newSession env (trace w) of
        Some err \<Rightarrow> Some err
      | None \<Rightarrow> fst (sessionRun env (trace w @ [NewSession None]) command []))"
| "opFailure env (OpSendFile filePath remoteFilePath) w =
     (case ReadFile env filePath w of
        Inl err \<Rightarrow> Some err
      | Inr data \<Rightarrow> newSession env (trace w))"
| "opFailure env (OpSendData srcData remoteFilePath) w = newSession env (trace w)"
| "opFailure env (OpRetrieveFile filePath remoteFilePath) w =
     (case createFault env filePath of
        Some err \<Rightarrow> Some err
      | None \<Rightarrow>
          (case newSession env (trace w) of
             Some err \<Rightarrow> Some err
           | None \<Rightarrow>
               fst (sessionRun env (trace w @ [NewSession None]) (''cat '' @ remoteFilePath) [])))"


section \<open>Package provision: DeployBosh\<close>

record Config =
  StateBosh :: string
  StateDir :: string
  LogDir :: string

definition obind :: "'a outcome \<Rightarrow> ('a \<Rightarrow> 'b outcome) \<Rightarrow> 'b outcome" where
  "obind m f = (case m of Returned x \<Rightarrow> f x | Crashed w \<Rightarrow> Crashed w)"

text \<open>The closure \<open>credhubIsDeployed\<close> (lines 29 to 36).\<close>

definition credhubIsDeployed :: "string \<Rightarrow> world \<Rightarrow> bool" where
  "credhubIsDeployed credsPath w = IsNotExist (Stat credsPath w)"

text \<open>\<open>boshRunner.Output(args...)\<close>: both results are discarded by the caller.\<close>

definition bosh_Output :: "env \<Rightarrow> string list \<Rightarrow> world \<Rightarrow> world" where
  "bosh_Output env args w = emit (BoshOutput args (boshOutput env (trace w) args)) w"

text \<open>The block of lines 97 to 125, entered when \<open>runtime.GOOS\<close> is \<open>linux\<close>.\<close>

definition DeployBosh_linux :: "env \<Rightarrow> Config \<Rightarrow> world \<Rightarrow> error option \<times> world" where
  "DeployBosh_linux env c w =
     (let cloudConfigPath = Join [StateBosh c, ''cloud-config.yml''];
          dnsConfigPath = Join [StateBosh c, ''dns.yml'']
      in
      case ReadFile env cloudConfigPath w of
        Inl err \<Rightarrow> (Some err, w)
      | Inr cloudConfigContents \<Rightarrow>
          (case WriteFile env cloudConfigPath
                  (Replace cloudConfigContents vpnkitNameserverIP kvmNameserverIP) w of
             Inl err \<Rightarrow> (Some err, w)
           | Inr w1 \<Rightarrow>
               (let w2 = bosh_Output env [''-n'', ''update-cloud-config'', cloudConfigPath] w1
                in
                case ReadFile env dnsConfigPath w2 of
                  Inl err \<Rightarrow> (Some err, w2)
                | Inr dnsConfigContents \<Rightarrow>
                    (case WriteFile env dnsConfigPath
                            (Replace dnsConfigContents vpnkitHostIP kvmNameserverIP) w2 of
                       Inl err \<Rightarrow> (Some err, w2)
                     | Inr w3 \<Rightarrow>
                         (None,
                          bosh_Output env [''-n'', ''update-runtime-config'', dnsConfigPath]
                            w3)))))"

text \<open>
  Lines 61 to 127: what \<open>DeployBosh\<close> does once the session \<open>s\<close> exists. The
  result is the error returned.
\<close>

definition DeployBosh_session ::
  "env \<Rightarrow> string \<Rightarrow> Config \<Rightarrow> string \<Rightarrow> SSH \<times> world \<Rightarrow> (error option \<times> world) outcome"
where
  "DeployBosh_session env goos c ip sw =
     (let credsPath = Join [StateBosh c, ''creds.yml''];
          directorPath = Join [StateBosh c, ''director.yml''];
          stateJSONPath = Join [StateBosh c, ''state.json'']
      in
      case ReadFile env directorPath (snd sw) of
        Inl err \<Rightarrow> Returned (Some err, snd sw)
      | Inr directorContents \<Rightarrow>
          obind (SendData env
                   (if goos = ''linux'' then kvmSubst ip directorContents else directorContents)
                   ''director.yml'' sw)
            (\<lambda>sw1.
          obind (SendFile env stateJSONPath ''state.json'' sw1)
            (\<lambda>sw2.
          obind (let command =
                       ''/usr/local/bin/bosh --tty create-env director.yml --state state.json''
                 in
                 if \<not> credhubIsDeployed credsPath (snd sw2)
                 then obind (SendFile env credsPath ''creds.yml'' sw2)
                        (\<lambda>sw3. Returned (sw3, command @ '' --vars-store creds.yml''))
                 else Returned (sw2, command))
            (\<lambda>(sw3, command).
          (let sw4 = Run env command (fst sw3, emit (Sleep (7 * Second)) (snd sw3));
               sw5 = RetrieveFile env stateJSONPath ''state.json'' sw4
           in
           case Error (fst sw5) of
             Some err \<Rightarrow> Returned (Some err, snd sw5)
           | None \<Rightarrow>
               if goos = ''linux'' then Returned (DeployBosh_linux env c (snd sw5))
               else Returned (None, snd sw5))))))"

text \<open>
  \<open>DeployBosh\<close>. \<open>goos\<close> is \<open>runtime.GOOS\<close>. The deferred \<open>s.Close()\<close> runs
  on every return after the session was created.
\<close>

definition DeployBosh :: "env \<Rightarrow> string \<Rightarrow> Config \<Rightarrow> world \<Rightarrow> (error option \<times> world) outcome" where
  "DeployBosh env goos c w =
     (case driverIP env of
        Inl err \<Rightarrow> Returned (Some err, w)
      | Inr ip \<Rightarrow>
          (case Create env (Join [LogDir c, ''deploy-bosh.log'']) w of
             Inl err \<Rightarrow> Returned (Some err, w)
           | Inr w1 \<Rightarrow>
               (case ReadFile env (Join [StateDir c, ''id_rsa'']) w1 of
                  Inl err \<Rightarrow> Returned (Some err, w1)
                | Inr key \<Rightarrow>
                    (case NewSSH env ip ''9992'' key (20 * Second)
                            (Join [LogDir c, ''deploy-bosh.log''])
                            (Join [LogDir c, ''deploy-bosh.log'']) w1 of
                       (Inl err, w2) \<Rightarrow> Returned (Some err, w2)
                     | (Inr s, w2) \<Rightarrow>
                         obind (DeployBosh_session env goos c ip (s, w2))
                           (\<lambda>(r, w3). Returned (r, Close s w3))))))"

section \<open>Package client: the service wrapper\<close>

record ServiceWrapper =
  binaryPath :: string
  workdir :: string

definition swrapperPath :: "ServiceWrapper \<Rightarrow> string \<Rightarrow> string" where
  "swrapperPath s label =
     (let splits = splitOn (CHR ''.'') label
      in Join [workdir s, splits ! (length splits - 1)])"


text \<open>
  \<open>exec.Command(path, args...)\<close> followed by \<open>CombinedOutput()\<close> or
  \<open>Output()\<close>: the command is started, its output and error come back.
\<close>

definition command_Output ::
  "env \<Rightarrow> string \<Rightarrow> string list \<Rightarrow> world \<Rightarrow> (bytes \<times> error option) \<times> world"
where
  "command_Output env path args w =
     (let (output, err) = execCommand env (trace w) path args
      in ((output, err), emit (ExecLocal path args err) w))"

text \<open>\<open>fmt.Errorf("failed to <what> '%s': %s: %s", label, err, output)\<close>.\<close>

definition failedTo :: "string \<Rightarrow> string \<Rightarrow> error \<Rightarrow> bytes \<Rightarrow> error" where
  "failedTo what label err output =
     GoError False
       (''failed to '' @ what @ '' '' @ [CHR 0x27] @ label @ [CHR 0x27] @ '': '' @ msg err @
        '': '' @ output)"


definition Start :: "env \<Rightarrow> ServiceWrapper \<Rightarrow> string \<Rightarrow> world \<Rightarrow> error option \<times> world" where
  "Start env s label w =
     (let ((output, err), w1) = command_Output env (swrapperPath s label) [''start''] w
      in
      case err of
        Some e \<Rightarrow> (Some (failedTo ''start'' label e output), w1)
      | None \<Rightarrow> (None, w1))"



section \<open>Observations\<close>

text \<open>What \<open>DeployBosh\<close> returned, when it returned.\<close>

definition outcomeError :: "(error option \<times> world) outcome \<Rightarrow> error option option" where
  "outcomeError out = (case out of Returned (r, w) \<Rightarrow> Some r | Crashed w \<Rightarrow> None)"










section \<open>Concrete environments for the examples\<close>

text \<open>
  An environment in which every collaborator succeeds and produces no output, an empty
  world, a fresh session, and two errors. The examples below vary them field by field.
\<close>

definition env_ok :: env where
  "env_ok =
     \<lparr>ParsePrivateKey = (\<lambda>key. None),
      sshDial = (\<lambda>tr addr. None),
      selectTicks = (\<lambda>timeout. timeout div Second),
      newSession = (\<lambda>tr. None),
      StdinPipe = (\<lambda>tr. None),
      stdinLimit = (\<lambda>tr. None),
      sessionRun = (\<lambda>tr command input. (None, [])),
      readFault = (\<lambda>path. None),
      createFault = (\<lambda>path. None),
      writeFault = (\<lambda>path. None),
      removeFault = (\<lambda>path. None),
      driverIP = Inr ''10.0.0.5'',
      boshOutput = (\<lambda>tr args. None),
      execCommand = (\<lambda>tr path args. ([], None)),
      StatusRunning = ''Running'',
      TrimSpace = (\<lambda>s. s)\<rparr>"

definition world0 :: world where
  "world0 = \<lparr>files = Map.empty, trace = []\<rparr>"


definition ssh0 :: SSH where
  "ssh0 = \<lparr>client = Some ''10.0.0.5:9992'', stdout = ''deploy-bosh.log'',
           stderr = ''deploy-bosh.log'', Error = None\<rparr>"

definition exit1 :: error where
  "exit1 = GoError False ''Process exited with status 1''"

definition refused :: error where
  "refused = GoError False ''connection refused''"


text \<open>A state directory without a credentials file, and its configuration.\<close>

definition cfg0 :: Config where
  "cfg0 = \<lparr>StateBosh = ''/state'', StateDir = ''/home'', LogDir = ''/log''\<rparr>"

definition world1 :: world where
  "world1 =
     \<lparr>files = [''/home/id_rsa'' \<mapsto> ''key'',
               ''/state/director.yml'' \<mapsto> ''mbus: 192.168.65.3:9999 dns: 192.168.65.1'',
               ''/state/state.json'' \<mapsto> ''{}'',
               ''/state/cloud-config.yml'' \<mapsto> ''dns: 192.168.65.1'',
               ''/state/dns.yml'' \<mapsto> ''host: 192.168.65.2''],
      trace = []\<rparr>"



section \<open>Properties of the literal substitution\<close>

lemma Replace_absent: "\<not> sublist old s \<Longrightarrow> Replace s old new = s"
proof (induction s old new rule: Replace.induct)
  case (1 s old new)
  show ?case
  proof (cases "s = [] \<or> old = []")
    case True
    then show ?thesis by (simp add: Replace.simps)
  next
    case False
    then obtain x xs where s: "s = x # xs" by (auto simp: neq_Nil_conv)
    from "1.prems" s have np: "\<not> prefix old s" and ns: "\<not> sublist old xs"
      by (auto simp: sublist_Cons_right)
    from "1.IH"(2) [OF False np] ns s have "Replace xs old new = xs" by simp
    with False np s show ?thesis by (subst Replace.simps) simp
  qed
qed

lemma sublist_eval:
  "sublist [] ys = True"
  "sublist (x # xs) [] = False"
  "sublist (x # xs) (y # ys) = (prefix (x # xs) (y # ys) \<or> sublist (x # xs) ys)"
  by (simp_all add: sublist_Cons_right)

lemma kvmSubst_absent:
  assumes "\<not> sublist (vpnkitInternalIP @ '':9999'') t" and "\<not> sublist vpnkitNameserverIP t"
  shows "kvmSubst ip t = t"
  using assms by (simp add: kvmSubst_def Replace_absent)

text \<open>
  C7, as stated, fails: replacing the nameserver literal can complete a new occurrence
  of that literal out of the last character of the inserted text and the text that
  follows it. On \<open>192.168.65.192.168.65.1\<close> the first pass yields
  \<open>192.168.122.192.168.65.1\<close> and the second pass changes it again.
\<close>

theorem kvmSubst_twice_differs:
  "kvmSubst ''10.0.0.1'' (kvmSubst ''10.0.0.1'' ''192.168.65.192.168.65.1'')
     \<noteq> kvmSubst ''10.0.0.1'' ''192.168.65.192.168.65.1''"
  by (simp add: kvmSubst_def vpnkitNameserverIP_def vpnkitInternalIP_def kvmNameserverIP_def
      Replace.simps)

text \<open>
  C7, amended: the substitution is a no-op on every text that contains neither target
  literal, and therefore applying it twice equals applying it once whenever neither
  target literal remains after the first pass.
\<close>

theorem kvmSubst_noop_without_literals:
  "(\<not> sublist (vpnkitInternalIP @ '':9999'') t \<and> \<not> sublist vpnkitNameserverIP t
      \<longrightarrow> kvmSubst ip t = t) \<and>
   (\<not> sublist (vpnkitInternalIP @ '':9999'') (kvmSubst ip t) \<and>
    \<not> sublist vpnkitNameserverIP (kvmSubst ip t)
      \<longrightarrow> kvmSubst ip (kvmSubst ip t) = kvmSubst ip t)"
  by (simp add: kvmSubst_absent)

theorem kvmSubst_noop_without_literals_witness:
  "\<not> sublist (vpnkitInternalIP @ '':9999'') ''dns: 8.8.8.8'' \<and>
   \<not> sublist vpnkitNameserverIP ''dns: 8.8.8.8'' \<and>
   kvmSubst ''10.0.0.1'' ''dns: 8.8.8.8'' = ''dns: 8.8.8.8'' \<and>
   kvmSubst ''10.0.0.1'' ''mbus: 192.168.65.3:9999 dns: 192.168.65.1''
     = ''mbus: 10.0.0.1:9999 dns: 192.168.122.1'' \<and>
   \<not> sublist (vpnkitInternalIP @ '':9999'')
       (kvmSubst ''10.0.0.1'' ''mbus: 192.168.65.3:9999 dns: 192.168.65.1'') \<and>
   \<not> sublist vpnkitNameserverIP
       (kvmSubst ''10.0.0.1'' ''mbus: 192.168.65.3:9999 dns: 192.168.65.1'') \<and>
   kvmSubst ''10.0.0.1'' (kvmSubst ''10.0.0.1'' ''mbus: 192.168.65.3:9999 dns: 192.168.65.1'')
     = kvmSubst ''10.0.0.1'' ''mbus: 192.168.65.3:9999 dns: 192.168.65.1''"
proof -
  have e: "kvmSubst ''10.0.0.1'' ''mbus: 192.168.65.3:9999 dns: 192.168.65.1''
     = ''mbus: 10.0.0.1:9999 dns: 192.168.122.1''"
    by (simp add: kvmSubst_def vpnkitNameserverIP_def vpnkitInternalIP_def kvmNameserverIP_def
      Replace.simps)
  have a: "\<not> sublist (vpnkitInternalIP @ '':9999'') ''dns: 8.8.8.8''"
     "\<not> sublist vpnkitNameserverIP ''dns: 8.8.8.8''"
    by (simp_all add: vpnkitNameserverIP_def vpnkitInternalIP_def sublist_eval)
  have b: "\<not> sublist (vpnkitInternalIP @ '':9999'') ''mbus: 10.0.0.1:9999 dns: 192.168.122.1''"
     "\<not> sublist vpnkitNameserverIP ''mbus: 10.0.0.1:9999 dns: 192.168.122.1''"
    by (simp_all add: vpnkitNameserverIP_def vpnkitInternalIP_def sublist_eval)
  from a b e kvmSubst_noop_without_literals [of "''dns: 8.8.8.8''" "''10.0.0.1''"]
    kvmSubst_noop_without_literals [of "''mbus: 192.168.65.3:9999 dns: 192.168.65.1''" "''10.0.0.1''"]
  show ?thesis by simp
qed

section \<open>Establishing the connection\<close>

lemma trace_emit [simp]: "trace (emit ev w) = trace w @ [ev]"
  by (simp add: emit_def)

lemma files_emit [simp]: "files (emit ev w) = files w"
  by (simp add: emit_def)

lemma newEvents_append: "trace w' = trace w @ evs \<Longrightarrow> newEvents w w' = evs"
  by (simp add: newEvents_def)

lemma dialLoop_shape:
  "dialLoop env addr n err0 w = ((cl, err), w') \<Longrightarrow>
   files w' = files w \<and>
   (\<exists>es. (cl = Some addr \<and> err = None \<and> length es < n \<and>
          trace w' = trace w @ map (\<lambda>e. Dial addr (Some e)) es @ [Dial addr None]) \<or>
         (cl = None \<and> length es = n \<and>
          err = Some (Errorf ''ssh connection timed out: ''
                        (if es = [] then err0 else Some (last es))) \<and>
          trace w' = trace w @ map (\<lambda>e. Dial addr (Some e)) es))"
proof (induction n arbitrary: err0 w)
  case 0
  then show ?case by auto
next
  case (Suc n)
  show ?case
  proof (cases "sshDial env (trace w) addr")
    case None
    with Suc.prems have "cl = Some addr" "err = None" "w' = emit (Dial addr None) w"
      by auto
    then have "files w' = files w"
      and "cl = Some addr \<and> err = None \<and> length ([]::error list) < Suc n \<and>
          trace w' = trace w @ map (\<lambda>e. Dial addr (Some e)) [] @ [Dial addr None]"
      by auto
    then show ?thesis by blast
  next
    case (Some e)
    with Suc.prems
    have "dialLoop env addr n (Some e) (emit (Dial addr (Some e)) w) = ((cl, err), w')"
      by simp
    from Suc.IH [OF this] obtain es where
      f: "files w' = files w" and
      d: "(cl = Some addr \<and> err = None \<and> length es < n \<and>
          trace w' = trace w @ [Dial addr (Some e)] @ map (\<lambda>e. Dial addr (Some e)) es @ [Dial addr None]) \<or>
         (cl = None \<and> length es = n \<and>
          err = Some (Errorf ''ssh connection timed out: ''
                        (if es = [] then Some e else Some (last es))) \<and>
          trace w' = trace w @ [Dial addr (Some e)] @ map (\<lambda>e. Dial addr (Some e)) es)"
      by auto
    from d have
      "(cl = Some addr \<and> err = None \<and> length (e # es) < Suc n \<and>
          trace w' = trace w @ map (\<lambda>e. Dial addr (Some e)) (e # es) @ [Dial addr None]) \<or>
         (cl = None \<and> length (e # es) = Suc n \<and>
          err = Some (Errorf ''ssh connection timed out: ''
                        (if e # es = [] then err0 else Some (last (e # es)))) \<and>
          trace w' = trace w @ map (\<lambda>e. Dial addr (Some e)) (e # es))"
      by auto
    with f show ?thesis by blast
  qed
qed

text \<open>
  C6: \<open>waitForSSH\<close> parses the private key before anything else. For every key
  that \<open>ssh.ParsePrivateKey\<close> rejects it returns no client and the error
  \<open>could not parse private key: ...\<close>, and the world is unchanged: not one dial
  attempt was made.
\<close>

theorem waitForSSH_malformed_key:
  "ParsePrivateKey env privateKey = Some e \<Longrightarrow>
   waitForSSH env ip port privateKey timeout w =
     ((None, Some (GoError False (''could not parse private key: '' @ msg e))), w) \<and>
   newEvents w (snd (waitForSSH env ip port privateKey timeout w)) = []"
  by (simp add: waitForSSH_def Errorf_def fmt_s_def newEvents_def)


theorem waitForSSH_malformed_key_witness:
  "ParsePrivateKey (env_ok\<lparr>ParsePrivateKey := \<lambda>key. Some (GoError False ''ssh: no key found'')\<rparr>)
     ''not a key'' = Some (GoError False ''ssh: no key found'') \<and>
   waitForSSH (env_ok\<lparr>ParsePrivateKey := \<lambda>key. Some (GoError False ''ssh: no key found'')\<rparr>)
     ''10.0.0.5'' ''9992'' ''not a key'' (20 * Second) world0 =
     ((None, Some (GoError False ''could not parse private key: ssh: no key found'')), world0) \<and>
   newEvents world0
     (snd (waitForSSH (env_ok\<lparr>ParsePrivateKey := \<lambda>key. Some (GoError False ''ssh: no key found'')\<rparr>)
        ''10.0.0.5'' ''9992'' ''not a key'' (20 * Second) world0)) = []"
  using waitForSSH_malformed_key
    [of "env_ok\<lparr>ParsePrivateKey := \<lambda>key. Some (GoError False ''ssh: no key found'')\<rparr>"
        "''not a key''" "GoError False ''ssh: no key found''" "''10.0.0.5''" "''9992''"
        "20 * Second" world0]
  by (simp add: newEvents_def)


text \<open>
  C5: \<open>waitForSSH\<close> returns exactly one of a client and an error. When the key
  parses, either some attempt succeeded, and then it was the last one made, all the
  attempts before it failed, and the client of that attempt is returned with no error;
  or every attempt made before the timeout was served failed, and the error returned is
  \<open>ssh connection timed out: \<close> followed by the last dial error, or by the
  rendering of a nil error when no attempt was made at all.
\<close>

theorem waitForSSH_outcome:
  assumes "waitForSSH env ip port privateKey timeout w = ((cl, err), w')"
  shows "((cl = None) = (err \<noteq> None)) \<and>
    (ParsePrivateKey env privateKey = None \<longrightarrow>
      (\<exists>es. (cl = Some (ip @ '':'' @ port) \<and> err = None \<and>
             length es < selectTicks env timeout \<and>
             newEvents w w' =
               map (\<lambda>e. Dial (ip @ '':'' @ port) (Some e)) es @ [Dial (ip @ '':'' @ port) None]) \<or>
            (cl = None \<and> length es = selectTicks env timeout \<and>
             err = Some (GoError False (''ssh connection timed out: '' @
                          fmt_s (if es = [] then None else Some (last es)))) \<and>
             newEvents w w' = map (\<lambda>e. Dial (ip @ '':'' @ port) (Some e)) es)))"
proof (cases "ParsePrivateKey env privateKey")
  case (Some e)
  with assms show ?thesis by (auto simp: waitForSSH_def)
next
  case None
  with assms have
    "dialLoop env (ip @ '':'' @ port) (selectTicks env timeout) None w = ((cl, err), w')"
    by (simp add: waitForSSH_def)
  from dialLoop_shape [OF this] obtain es where
    d: "(cl = Some (ip @ '':'' @ port) \<and> err = None \<and> length es < selectTicks env timeout \<and>
          trace w' = trace w @ map (\<lambda>e. Dial (ip @ '':'' @ port) (Some e)) es @ [Dial (ip @ '':'' @ port) None]) \<or>
         (cl = None \<and> length es = selectTicks env timeout \<and>
          err = Some (Errorf ''ssh connection timed out: ''
                        (if es = [] then None else Some (last es))) \<and>
          trace w' = trace w @ map (\<lambda>e. Dial (ip @ '':'' @ port) (Some e)) es)"
    by blast
  then have one: "(cl = None) = (err \<noteq> None)" by auto
  from d have
    "(cl = Some (ip @ '':'' @ port) \<and> err = None \<and>
             length es < selectTicks env timeout \<and>
             newEvents w w' =
               map (\<lambda>e. Dial (ip @ '':'' @ port) (Some e)) es @ [Dial (ip @ '':'' @ port) None]) \<or>
            (cl = None \<and> length es = selectTicks env timeout \<and>
             err = Some (GoError False (''ssh connection timed out: '' @
                          fmt_s (if es = [] then None else Some (last es)))) \<and>
             newEvents w w' = map (\<lambda>e. Dial (ip @ '':'' @ port) (Some e)) es)"
    by (auto simp: newEvents_def Errorf_def)
  with one show ?thesis by blast
qed

theorem waitForSSH_outcome_witness:
  "waitForSSH (env_ok\<lparr>sshDial := \<lambda>tr addr. if tr = [] then Some refused else None,
                       selectTicks := \<lambda>t. Suc (Suc (Suc 0))\<rparr>)
     ''10.0.0.5'' ''9992'' ''key'' (20 * Second) world0 =
     ((Some ''10.0.0.5:9992'', None),
      world0\<lparr>trace := [Dial ''10.0.0.5:9992'' (Some refused), Dial ''10.0.0.5:9992'' None]\<rparr>) \<and>
   ParsePrivateKey (env_ok\<lparr>sshDial := \<lambda>tr addr. if tr = [] then Some refused else None,
                       selectTicks := \<lambda>t. Suc (Suc (Suc 0))\<rparr>) ''key'' = None \<and>
   (\<exists>es. length es < 3 \<and>
      newEvents world0
        (world0\<lparr>trace := [Dial ''10.0.0.5:9992'' (Some refused), Dial ''10.0.0.5:9992'' None]\<rparr>) =
      map (\<lambda>e. Dial ''10.0.0.5:9992'' (Some e)) es @ [Dial ''10.0.0.5:9992'' None])"
proof -
  let ?env = "env_ok\<lparr>sshDial := \<lambda>tr addr. if tr = [] then Some refused else None,
                       selectTicks := \<lambda>t. Suc (Suc (Suc 0))\<rparr>"
  have run: "waitForSSH ?env ''10.0.0.5'' ''9992'' ''key'' (20 * Second) world0 =
     ((Some ''10.0.0.5:9992'', None),
      world0\<lparr>trace := [Dial ''10.0.0.5:9992'' (Some refused), Dial ''10.0.0.5:9992'' None]\<rparr>)"
    by (simp add: waitForSSH_def env_ok_def world0_def emit_def)
  have key: "ParsePrivateKey ?env ''key'' = None"
    by (simp add: env_ok_def)
  from waitForSSH_outcome [OF run] key run show ?thesis
    by (auto simp: eval_nat_numeral)
qed


section \<open>The sticky error slot\<close>

lemma Run_sticky: "Error s \<noteq> None \<Longrightarrow> Run env command (s, w) = (s, w)"
  by (simp add: Run_def)

lemma SendData_sticky: "Error s \<noteq> None \<Longrightarrow> SendData env d rp (s, w) = Returned (s, w)"
  by (simp add: SendData_def)

lemma SendFile_sticky: "Error s \<noteq> None \<Longrightarrow> SendFile env fp rp (s, w) = Returned (s, w)"
  by (simp add: SendFile_def)

lemma RetrieveFile_sticky: "Error s \<noteq> None \<Longrightarrow> RetrieveFile env fp rp (s, w) = (s, w)"
  by (simp add: RetrieveFile_def)

lemma exec_op_sticky: "Error s \<noteq> None \<Longrightarrow> exec_op env x (s, w) = Returned (s, w)"
  by (cases x) (simp_all add: Run_sticky SendData_sticky SendFile_sticky RetrieveFile_sticky)

lemma exec_ops_sticky: "Error s \<noteq> None \<Longrightarrow> exec_ops env xs (s, w) = Returned (s, w)"
  by (induction xs) (simp_all add: exec_op_sticky)

lemma exec_ops_append:
  "exec_ops env (xs @ ys) sw =
     (case exec_ops env xs sw of
        Returned sw' \<Rightarrow> exec_ops env ys sw'
      | Crashed w \<Rightarrow> Crashed w)"
  by (induction xs arbitrary: sw) (auto split: outcome.splits)

lemma Error_None_update: "Error s = None \<Longrightarrow> s\<lparr>Error := None\<rparr> = s"
  by (cases s) simp

lemma fst_session_Run:
  "fst (session_Run env out errw command input w) = fst (sessionRun env (trace w) command input)"
  by (simp add: session_Run_def split: prod.splits)

lemma Run_stores:
  assumes "Error s = None"
  shows "fst (Run env command (s, w)) = s\<lparr>Error := opFailure env (OpRun command) w\<rparr>"
proof (cases "newSession env (trace w)")
  case (Some e)
  with assms show ?thesis by (simp add: Run_def)
next
  case None
  with assms show ?thesis
    by (simp add: Run_def case_prod_beta fst_session_Run)
qed

lemma RetrieveFile_stores:
  assumes "Error s = None"
  shows "fst (RetrieveFile env filePath remoteFilePath (s, w)) =
           s\<lparr>Error := opFailure env (OpRetrieveFile filePath remoteFilePath) w\<rparr>"
proof (cases "createFault env filePath")
  case (Some e)
  with assms show ?thesis by (simp add: RetrieveFile_def Create_def)
next
  case cf: None
  show ?thesis
  proof (cases "newSession env (trace w)")
    case (Some e)
    with assms cf show ?thesis by (simp add: RetrieveFile_def Create_def)
  next
    case None
    with assms cf show ?thesis
      by (simp add: RetrieveFile_def Create_def case_prod_beta fst_session_Run)
  qed
qed

lemma SendData_stores:
  assumes "Error s = None" and "SendData env srcData remoteFilePath (s, w) = Returned (s', w')"
  shows "s' = s\<lparr>Error := opFailure env (OpSendData srcData remoteFilePath) w\<rparr>"
proof (cases "newSession env (trace w)")
  case (Some e)
  with assms show ?thesis by (simp add: SendData_def)
next
  case None
  with assms have "s' = s"
    by (auto simp: SendData_def Let_def case_prod_beta split: option.splits)
  with None assms(1) show ?thesis by (simp add: Error_None_update)
qed

lemma SendFile_stores:
  assumes "Error s = None" and "SendFile env filePath remoteFilePath (s, w) = Returned (s', w')"
  shows "s' = s\<lparr>Error := opFailure env (OpSendFile filePath remoteFilePath) w\<rparr>"
proof (cases "ReadFile env filePath w")
  case (Inl e)
  with assms show ?thesis by (simp add: SendFile_def)
next
  case (Inr data)
  with assms have "SendData env data remoteFilePath (s, w) = Returned (s', w')"
    by (simp add: SendFile_def)
  from SendData_stores [OF assms(1) this] Inr show ?thesis by simp
qed

lemma exec_op_stores:
  assumes "Error s = None" and "exec_op env x (s, w) = Returned (s', w')"
  shows "s' = s\<lparr>Error := opFailure env x w\<rparr>"
proof (cases x)
  case (OpRun command)
  with assms(2) have "s' = fst (Run env command (s, w))" by auto
  with Run_stores [OF assms(1)] OpRun show ?thesis by simp
next
  case (OpSendFile filePath remoteFilePath)
  with assms SendFile_stores show ?thesis by simp
next
  case (OpSendData srcData remoteFilePath)
  with assms SendData_stores show ?thesis by simp
next
  case (OpRetrieveFile filePath remoteFilePath)
  with assms(2) have "s' = fst (RetrieveFile env filePath remoteFilePath (s, w))" by auto
  with RetrieveFile_stores [OF assms(1)] OpRetrieveFile show ?thesis by simp
qed

lemma exec_op_failure_returns:
  assumes "Error s = None" and "opFailure env x w = Some e"
  shows "\<exists>w'. exec_op env x (s, w) = Returned (s\<lparr>Error := Some e\<rparr>, w')"
proof -
  have ret: "\<exists>sw'. exec_op env x (s, w) = Returned sw'"
  proof (cases x)
    case (OpRun command)
    then show ?thesis by simp
  next
    case (OpSendFile filePath remoteFilePath)
    with assms show ?thesis
      by (auto simp: SendFile_def SendData_def split: sum.splits)
  next
    case (OpSendData srcData remoteFilePath)
    with assms show ?thesis by (auto simp: SendData_def)
  next
    case (OpRetrieveFile filePath remoteFilePath)
    then show ?thesis by simp
  qed
  then obtain s' w' where r: "exec_op env x (s, w) = Returned (s', w')" by auto
  from exec_op_stores [OF assms(1) r] assms(2) r show ?thesis by auto
qed

text \<open>
  C1, as stated, fails: an upload whose receiving command fails leaves the error slot
  empty, so it is the first operation to fail and yet the error reported at the end is
  that of a later operation. Here the receiving command of the upload exits with status
  1 and the channel for the following \<open>Run\<close> is refused: the slot ends with the
  refusal.
\<close>

theorem dropped_upload_failure_is_overwritten:
  "exec_ops (env_ok\<lparr>newSession := \<lambda>tr. if tr = [] then None else Some refused,
                    sessionRun := \<lambda>tr command input. (Some exit1, [])\<rparr>)
     [OpSendData ''abc'' ''director.yml'', OpRun ''deploy''] (ssh0, world0) =
   Returned (ssh0\<lparr>Error := Some refused\<rparr>,
     world0\<lparr>trace := [NewSession None,
                       Exec ''/usr/bin/scp -qt .''
                         (''C0755 3 director.yml'' @ [CHR 0x0A] @ ''abc'' @ [CHR 0x00, CHR 0x0A])
                         (Some exit1),
                       SessionClose,
                       NewSession (Some refused)]\<rparr>) \<and>
   Some refused \<noteq> Some exit1"
  by (simp add: SendData_def Run_def writer_def scpWrites_def pipeWrite_def session_Run_def
      env_ok_def ssh0_def world0_def emit_def Dir_def Clean_def scpHeader_def exit1_def
      refused_def isSep_def Base_def decimal.simps digit_def)


text \<open>
  C1, amended: when the error slot is set on entry, each of \<open>Run\<close>,
  \<open>SendFile\<close>, \<open>SendData\<close> and \<open>RetrieveFile\<close> returns the session and the
  world as they were (no channel, no byte sent, no local file touched, the slot
  unchanged). An operation entered with an empty slot leaves in the slot exactly its
  failure in the sense of \<open>opFailure\<close>: the local read or create error, the error
  of opening the channel, or, for \<open>Run\<close> and \<open>RetrieveFile\<close>, the error of
  \<open>session.Run\<close>. For every sequence of operations in which operation \<open>k\<close> is
  the first with such a failure, the sequence ends in the state right after operation
  \<open>k\<close>: the error reported at the end is the error of operation \<open>k\<close>, and the
  operations after it did nothing.
\<close>

theorem stored_failure_wins:
  "(Error s \<noteq> None \<longrightarrow>
      Run env command (s, w) = (s, w) \<and>
      SendFile env filePath remoteFilePath (s, w) = Returned (s, w) \<and>
      SendData env srcData remoteFilePath (s, w) = Returned (s, w) \<and>
      RetrieveFile env filePath remoteFilePath (s, w) = (s, w)) \<and>
   (Error sa = None \<and> exec_op env x (sa, wa) = Returned (sa', wa') \<longrightarrow>
      sa' = sa\<lparr>Error := opFailure env x wa\<rparr>) \<and>
   (exec_ops env pre (s0, w0) = Returned (sk, wk) \<and> Error sk = None \<and>
    opFailure env xk wk = Some e \<longrightarrow>
      (\<exists>w'. exec_op env xk (sk, wk) = Returned (sk\<lparr>Error := Some e\<rparr>, w') \<and>
            exec_ops env (pre @ xk # post) (s0, w0) = Returned (sk\<lparr>Error := Some e\<rparr>, w')))"
proof -
  have c: "\<exists>w'. exec_op env xk (sk, wk) = Returned (sk\<lparr>Error := Some e\<rparr>, w') \<and>
            exec_ops env (pre @ xk # post) (s0, w0) = Returned (sk\<lparr>Error := Some e\<rparr>, w')"
    if p: "exec_ops env pre (s0, w0) = Returned (sk, wk)" and n: "Error sk = None"
      and f: "opFailure env xk wk = Some e"
  proof -
    from exec_op_failure_returns [OF n f] obtain w' where
      r: "exec_op env xk (sk, wk) = Returned (sk\<lparr>Error := Some e\<rparr>, w')" by blast
    have "exec_ops env (pre @ xk # post) (s0, w0) = exec_ops env (xk # post) (sk, wk)"
      using p by (simp add: exec_ops_append)
    also have "\<dots> = exec_ops env post (sk\<lparr>Error := Some e\<rparr>, w')"
      using r by simp
    also have "\<dots> = Returned (sk\<lparr>Error := Some e\<rparr>, w')"
      by (rule exec_ops_sticky) simp
    finally show ?thesis using r by blast
  qed
  have b: "sa' = sa\<lparr>Error := opFailure env x wa\<rparr>"
    if "Error sa = None" and "exec_op env x (sa, wa) = Returned (sa', wa')"
    using that by (rule exec_op_stores)
  show ?thesis
    using b c
    by (simp add: Run_sticky SendData_sticky SendFile_sticky RetrieveFile_sticky)
qed

theorem stored_failure_wins_witness:
  "Error (ssh0\<lparr>Error := Some exit1\<rparr>) \<noteq> None \<and>
   Run env_ok ''true'' (ssh0\<lparr>Error := Some exit1\<rparr>, world0) = (ssh0\<lparr>Error := Some exit1\<rparr>, world0) \<and>
   SendFile env_ok ''state.json'' ''state.json'' (ssh0\<lparr>Error := Some exit1\<rparr>, world0) =
     Returned (ssh0\<lparr>Error := Some exit1\<rparr>, world0) \<and>
   SendData env_ok ''abc'' ''director.yml'' (ssh0\<lparr>Error := Some exit1\<rparr>, world0) =
     Returned (ssh0\<lparr>Error := Some exit1\<rparr>, world0) \<and>
   RetrieveFile env_ok ''state.json'' ''state.json'' (ssh0\<lparr>Error := Some exit1\<rparr>, world0) =
     (ssh0\<lparr>Error := Some exit1\<rparr>, world0) \<and>
   exec_ops (env_ok\<lparr>sessionRun := \<lambda>tr command input.
                        (if command = ''false'' then Some exit1 else None, [])\<rparr>)
     [OpSendData ''abc'' ''director.yml''] (ssh0, world0) =
     Returned (ssh0,
       world0\<lparr>trace := [NewSession None,
                         Exec ''/usr/bin/scp -qt .''
                           (''C0755 3 director.yml'' @ [CHR 0x0A] @ ''abc'' @ [CHR 0x00, CHR 0x0A])
                           None,
                         SessionClose]\<rparr>) \<and>
   Error ssh0 = None \<and>
   opFailure (env_ok\<lparr>sessionRun := \<lambda>tr command input.
                        (if command = ''false'' then Some exit1 else None, [])\<rparr>)
     (OpRun ''false'')
     (world0\<lparr>trace := [NewSession None,
                         Exec ''/usr/bin/scp -qt .''
                           (''C0755 3 director.yml'' @ [CHR 0x0A] @ ''abc'' @ [CHR 0x00, CHR 0x0A])
                           None,
                         SessionClose]\<rparr>) = Some exit1 \<and>
   exec_ops (env_ok\<lparr>sessionRun := \<lambda>tr command input.
                        (if command = ''false'' then Some exit1 else None, [])\<rparr>)
     ([OpSendData ''abc'' ''director.yml''] @ OpRun ''false'' #
      [OpRun ''true'', OpRetrieveFile ''state.json'' ''state.json''])
     (ssh0, world0) =
     Returned (ssh0\<lparr>Error := Some exit1\<rparr>,
       world0\<lparr>trace := [NewSession None,
                         Exec ''/usr/bin/scp -qt .''
                           (''C0755 3 director.yml'' @ [CHR 0x0A] @ ''abc'' @ [CHR 0x00, CHR 0x0A])
                           None,
                         SessionClose,
                         NewSession None, Exec ''false'' [] (Some exit1), SessionClose]\<rparr>)"
proof -
  let ?env = "env_ok\<lparr>sessionRun := \<lambda>tr command input.
                        (if command = ''false'' then Some exit1 else None, [])\<rparr>"
  let ?sE = "ssh0\<lparr>Error := Some exit1\<rparr>"
  let ?w1 = "world0\<lparr>trace := [NewSession None,
                         Exec ''/usr/bin/scp -qt .''
                           (''C0755 3 director.yml'' @ [CHR 0x0A] @ ''abc'' @ [CHR 0x00, CHR 0x0A])
                           None,
                         SessionClose]\<rparr>"
  let ?w2 = "world0\<lparr>trace := [NewSession None,
                         Exec ''/usr/bin/scp -qt .''
                           (''C0755 3 director.yml'' @ [CHR 0x0A] @ ''abc'' @ [CHR 0x00, CHR 0x0A])
                           None,
                         SessionClose,
                         NewSession None, Exec ''false'' [] (Some exit1), SessionClose]\<rparr>"
  let ?post = "[OpRun ''true'', OpRetrieveFile ''state.json'' ''state.json'']"
  have set: "Error ?sE \<noteq> None" by simp
  have empty: "Error ssh0 = None" by (simp add: ssh0_def)
  have pre: "exec_ops ?env [OpSendData ''abc'' ''director.yml''] (ssh0, world0) = Returned (ssh0, ?w1)"
    by (simp add: SendData_def writer_def scpWrites_def pipeWrite_def session_Run_def
        env_ok_def ssh0_def world0_def emit_def Dir_def Clean_def scpHeader_def isSep_def
        Base_def decimal.simps digit_def)
  have fail: "opFailure ?env (OpRun ''false'') ?w1 = Some exit1"
    by (simp add: env_ok_def)
  have step: "exec_op ?env (OpRun ''false'') (ssh0, ?w1) = Returned (?sE, ?w2)"
    by (simp add: Run_def session_Run_def env_ok_def ssh0_def world0_def emit_def)
  note a = stored_failure_wins
      [of ?sE env_ok "''true''" world0 "''state.json''" "''state.json''" "''abc''"]
  note a' = stored_failure_wins
      [of ?sE env_ok "''true''" world0 "''state.json''" "''director.yml''" "''abc''"]
  note c = stored_failure_wins
      [of ?sE ?env "''true''" world0 "''state.json''" "''state.json''" "''abc''"
          ssh0 "OpRun ''false''" ?w1 ?sE ?w2
          "[OpSendData ''abc'' ''director.yml'']" ssh0 world0 ssh0 ?w1 "OpRun ''false''" exit1 ?post]
  from a set have one: "Run env_ok ''true'' (?sE, world0) = (?sE, world0) \<and>
     SendFile env_ok ''state.json'' ''state.json'' (?sE, world0) = Returned (?sE, world0) \<and>
     RetrieveFile env_ok ''state.json'' ''state.json'' (?sE, world0) = (?sE, world0)"
    by simp
  from a' set have two: "SendData env_ok ''abc'' ''director.yml'' (?sE, world0) = Returned (?sE, world0)"
    by simp
  from c pre empty fail obtain w' where
    "exec_op ?env (OpRun ''false'') (ssh0, ?w1) = Returned (?sE, w')"
    "exec_ops ?env ([OpSendData ''abc'' ''director.yml''] @ OpRun ''false'' # ?post) (ssh0, world0) =
       Returned (?sE, w')"
    by blast
  with step have three:
    "exec_ops ?env ([OpSendData ''abc'' ''director.yml''] @ OpRun ''false'' # ?post) (ssh0, world0) =
       Returned (?sE, ?w2)"
    by simp
  from set one two pre empty fail three show ?thesis by blast
qed

text \<open>
  C9: with an empty error slot, when \<open>SendFile\<close> cannot read the local file, or
  \<open>RetrieveFile\<close> cannot create the local file, the error is stored in the slot
  and the world is unchanged: no channel was opened and nothing was sent or received.
\<close>

theorem local_failure_aborts_before_remote:
  "Error s = None \<longrightarrow>
     (ReadFile env filePath w = Inl e \<longrightarrow>
        SendFile env filePath remoteFilePath (s, w) = Returned (s\<lparr>Error := Some e\<rparr>, w)) \<and>
     (Create env filePath w = Inl e \<longrightarrow>
        RetrieveFile env filePath remoteFilePath (s, w) = (s\<lparr>Error := Some e\<rparr>, w))"
  by (simp add: SendFile_def RetrieveFile_def)


theorem local_failure_aborts_before_remote_witness:
  "Error ssh0 = None \<and>
   ReadFile env_ok ''/state/state.json'' world0 = Inl (ErrNotExist ''open'' ''/state/state.json'') \<and>
   SendFile env_ok ''/state/state.json'' ''state.json'' (ssh0, world0) =
     Returned (ssh0\<lparr>Error := Some (ErrNotExist ''open'' ''/state/state.json'')\<rparr>, world0) \<and>
   Create (env_ok\<lparr>createFault := \<lambda>path. Some (GoError False ''permission denied'')\<rparr>)
     ''/state/state.json'' world0 = Inl (GoError False ''permission denied'') \<and>
   RetrieveFile (env_ok\<lparr>createFault := \<lambda>path. Some (GoError False ''permission denied'')\<rparr>)
     ''/state/state.json'' ''state.json'' (ssh0, world0) =
     (ssh0\<lparr>Error := Some (GoError False ''permission denied'')\<rparr>, world0)"
proof -
  let ?env = "env_ok\<lparr>createFault := \<lambda>path. Some (GoError False ''permission denied'')\<rparr>"
  have a: "Error ssh0 = None" by (simp add: ssh0_def)
  have r: "ReadFile env_ok ''/state/state.json'' world0 =
             Inl (ErrNotExist ''open'' ''/state/state.json'')"
    by (simp add: ReadFile_def env_ok_def world0_def)
  have c: "Create ?env ''/state/state.json'' world0 = Inl (GoError False ''permission denied'')"
    by (simp add: Create_def)
  from local_failure_aborts_before_remote
         [of ssh0 env_ok "''/state/state.json''" world0
             "ErrNotExist ''open'' ''/state/state.json''" "''state.json''"]
       local_failure_aborts_before_remote
         [of ssh0 ?env "''/state/state.json''" world0
             "GoError False ''permission denied''" "''state.json''"]
       a r c
  show ?thesis by simp
qed


section \<open>Uploads\<close>

lemma trace_fileWrite [simp]: "trace (fileWrite path bs w) = trace w"
  by (simp add: fileWrite_def)

lemma trace_deliver [simp]: "trace (deliver out errw chunks w) = trace w"
  by (induction chunks arbitrary: w) auto

lemma Base_last_element:
  assumes "name \<noteq> []" and "CHR ''/'' \<notin> set name"
  shows "Base (pre @ ''/'' @ name) = name" and "Base name = name"
proof -
  have nosep: "\<And>ch. ch \<in> set (rev name) \<Longrightarrow> \<not> isSep ch"
    using assms(2) by (auto simp: isSep_def)
  have "last name \<in> set name" using assms(1) by simp
  then have hd: "\<not> isSep (hd (rev name))"
    using assms nosep by (simp add: hd_rev)
  have dw: "dropWhile isSep (rev name @ ys) = rev name @ ys" for ys
    using hd assms(1) by (simp add: dropWhile_eq_self_iff)
  have "takeWhile (\<lambda>ch. \<not> isSep ch) (rev name @ CHR ''/'' # rev pre) =
          rev name @ takeWhile (\<lambda>ch. \<not> isSep ch) (CHR ''/'' # rev pre)"
    by (rule takeWhile_append2) (use nosep in auto)
  then have tw: "takeWhile (\<lambda>ch. \<not> isSep ch) (rev name @ CHR ''/'' # rev pre) = rev name"
    by (simp add: isSep_def)
  have tw2: "takeWhile (\<lambda>ch. \<not> isSep ch) (rev name) = rev name"
    using nosep by (simp add: takeWhile_eq_all_conv)
  show "Base (pre @ ''/'' @ name) = name"
    using assms(1) dw [of "CHR ''/'' # rev pre"] tw by (simp add: Base_def Let_def)
  have "Base name =
          (let q = rev (takeWhile (\<lambda>ch. \<not> isSep ch) (rev name)) in if q = [] then ''/'' else q)"
    using assms(1) dw [of "[]"] by (simp add: Base_def Let_def del: takeWhile_eq_all_conv)
  also have "\<dots> = name"
    using assms(1) by (simp only: tw2 Let_def rev_rev_ident if_False)
  finally show "Base name = name" .
qed

lemma scpWrites_unlimited:
  "scpWrites None srcData remoteFilePath =
     (scpHeader srcData remoteFilePath @ srcData @ [CHR 0x00, CHR 0x0A], None)"
  by (simp add: scpWrites_def pipeWrite_def)

text \<open>
  C3: when the channel opens and its standard input accepts everything written to it,
  \<open>SendData\<close> runs the receiving command on the directory of the remote path with
  exactly these bytes on its standard input: the line \<open>C0755 L base\<close>, where
  \<open>L\<close> is the length of the payload in decimal and \<open>base\<close> the base name of
  the remote path; the \<open>L\<close> bytes of the payload; a NUL byte and a newline. The
  payload may be empty. For a remote path \<open>dir/name\<close> the base name is \<open>name\<close>.
\<close>

theorem SendData_framing:
  assumes "Error s = None"
    and "newSession env (trace w) = None"
    and "StdinPipe env (trace w @ [NewSession None]) = None"
    and "stdinLimit env (trace w @ [NewSession None]) = None"
  shows "(\<exists>err w'.
            SendData env srcData remoteFilePath (s, w) = Returned (s, w') \<and>
            newEvents w w' =
              [NewSession None,
               Exec (''/usr/bin/scp -qt '' @ Dir remoteFilePath)
                    (''C0755 '' @ decimal (length srcData) @ '' '' @ Base remoteFilePath @
                       [CHR 0x0A] @ srcData @ [CHR 0x00, CHR 0x0A])
                    err,
               SessionClose]) \<and>
         (name \<noteq> [] \<and> CHR ''/'' \<notin> set name \<longrightarrow> Base (dir @ ''/'' @ name) = name)"
proof -
  obtain err chunks where r: "sessionRun env (trace w @ [NewSession None])
      (''/usr/bin/scp -qt '' @ Dir remoteFilePath)
      (scpHeader srcData remoteFilePath @ srcData @ [CHR 0x00, CHR 0x0A]) = (err, chunks)"
    by (cases "sessionRun env (trace w @ [NewSession None])
      (''/usr/bin/scp -qt '' @ Dir remoteFilePath)
      (scpHeader srcData remoteFilePath @ srcData @ [CHR 0x00, CHR 0x0A])") auto
  let ?w' = "emit SessionClose
      (deliver (stdout s) (stderr s) chunks
        (emit (Exec (''/usr/bin/scp -qt '' @ Dir remoteFilePath)
                 (scpHeader srcData remoteFilePath @ srcData @ [CHR 0x00, CHR 0x0A]) err)
           (emit (NewSession None) w)))"
  have "SendData env srcData remoteFilePath (s, w) = Returned (s, ?w')"
    using assms r by (simp add: SendData_def writer_def scpWrites_unlimited session_Run_def)
  moreover have "newEvents w ?w' =
              [NewSession None,
               Exec (''/usr/bin/scp -qt '' @ Dir remoteFilePath)
                    (''C0755 '' @ decimal (length srcData) @ '' '' @ Base remoteFilePath @
                       [CHR 0x0A] @ srcData @ [CHR 0x00, CHR 0x0A])
                    err,
               SessionClose]"
    by (simp add: newEvents_def scpHeader_def)
  ultimately show ?thesis
    using Base_last_element(1) by blast
qed


theorem SendData_framing_witness:
  "Error ssh0 = None \<and>
   newSession env_ok (trace world0) = None \<and>
   StdinPipe env_ok (trace world0 @ [NewSession None]) = None \<and>
   stdinLimit env_ok (trace world0 @ [NewSession None]) = None \<and>
   (\<exists>err w'.
      SendData env_ok ''hello'' ''dir/name.ext'' (ssh0, world0) = Returned (ssh0, w') \<and>
      newEvents world0 w' =
        [NewSession None,
         Exec ''/usr/bin/scp -qt dir''
           (''C0755 5 name.ext'' @ [CHR 0x0A] @ ''hello'' @ [CHR 0x00, CHR 0x0A]) err,
         SessionClose]) \<and>
   (\<exists>err w'.
      SendData env_ok [] ''dir/name.ext'' (ssh0, world0) = Returned (ssh0, w') \<and>
      newEvents world0 w' =
        [NewSession None,
         Exec ''/usr/bin/scp -qt dir'' (''C0755 0 name.ext'' @ [CHR 0x0A] @ [CHR 0x00, CHR 0x0A]) err,
         SessionClose]) \<and>
   ''name.ext'' \<noteq> [] \<and> CHR ''/'' \<notin> set ''name.ext'' \<and>
   Base (''dir'' @ ''/'' @ ''name.ext'') = ''name.ext''"
proof -
  have h: "Error ssh0 = None" "newSession env_ok (trace world0) = None"
    "StdinPipe env_ok (trace world0 @ [NewSession None]) = None"
    "stdinLimit env_ok (trace world0 @ [NewSession None]) = None"
    by (simp_all add: ssh0_def env_ok_def)
  have ev: "Dir ''dir/name.ext'' = ''dir''" "Base ''dir/name.ext'' = ''name.ext''"
    "decimal (Suc (Suc (Suc (Suc (Suc 0))))) = ''5''" "decimal 0 = ''0''"
    by (simp_all add: Dir_def Clean_def isSep_def Base_def decimal.simps digit_def)
  have n: "''name.ext'' \<noteq> []" "CHR ''/'' \<notin> set ''name.ext''"
    by simp_all
  from SendData_framing [OF h, of "''hello''" "''dir/name.ext''" "''name.ext''" "''dir''"]
       SendData_framing [OF h, of "[]" "''dir/name.ext''" "''name.ext''" "''dir''"]
       h n
  show ?thesis
    by (simp add: ev)
qed


text \<open>
  C2, as stated, fails: with a channel that accepts no byte (so the copy of the writer
  fails) and a receiving command that fails, \<open>SendData\<close> prints the error of the
  copy, drops the error of the command, and returns with the error slot still empty.
\<close>

theorem SendData_drops_failures:
  "Error (fst (ssh0, world0)) = None \<and>
   SendData (env_ok\<lparr>stdinLimit := \<lambda>tr. Some (0, GoError False ''EOF''),
                    sessionRun := \<lambda>tr command input. (Some exit1, [])\<rparr>)
     ''abc'' ''director.yml'' (ssh0, world0) =
   Returned (ssh0,
     world0\<lparr>trace := [NewSession None, Print ''EOF'',
                       Exec ''/usr/bin/scp -qt .'' [] (Some exit1), SessionClose]\<rparr>) \<and>
   Error ssh0 = None"
  by (simp add: SendData_def writer_def scpWrites_def pipeWrite_def session_Run_def env_ok_def
      ssh0_def world0_def emit_def Dir_def Clean_def scpHeader_def exit1_def isSep_def)


text \<open>
  C2, amended: the one failure \<open>SendData\<close> stores in the error slot is the failure
  to open the channel. Once the channel and its standard-input pipe are open, the
  session returned has the slot as empty as before, whatever the writer and the
  receiving command do: the error of the copy is printed and the error of the command is
  dropped.
\<close>

theorem SendData_keeps_slot_empty:
  assumes "Error s = None"
  shows "(newSession env (trace w) = Some e \<longrightarrow>
            SendData env srcData remoteFilePath (s, w) =
              Returned (s\<lparr>Error := Some e\<rparr>, emit (NewSession (Some e)) w)) \<and>
         (newSession env (trace w) = None \<and> StdinPipe env (trace w @ [NewSession None]) = None \<longrightarrow>
            (\<exists>w'. SendData env srcData remoteFilePath (s, w) = Returned (s, w')))"
  using assms
  by (auto simp: SendData_def writer_def session_Run_def Let_def split: prod.splits option.splits)

theorem SendData_keeps_slot_empty_witness:
  "Error ssh0 = None \<and>
   newSession (env_ok\<lparr>newSession := \<lambda>tr. Some refused\<rparr>) (trace world0) = Some refused \<and>
   SendData (env_ok\<lparr>newSession := \<lambda>tr. Some refused\<rparr>) ''abc'' ''director.yml'' (ssh0, world0) =
     Returned (ssh0\<lparr>Error := Some refused\<rparr>, emit (NewSession (Some refused)) world0) \<and>
   newSession (env_ok\<lparr>stdinLimit := \<lambda>tr. Some (0, GoError False ''EOF''),
                      sessionRun := \<lambda>tr command input. (Some exit1, [])\<rparr>) (trace world0) = None \<and>
   StdinPipe (env_ok\<lparr>stdinLimit := \<lambda>tr. Some (0, GoError False ''EOF''),
                      sessionRun := \<lambda>tr command input. (Some exit1, [])\<rparr>)
     (trace world0 @ [NewSession None]) = None \<and>
   (\<exists>w'. SendData (env_ok\<lparr>stdinLimit := \<lambda>tr. Some (0, GoError False ''EOF''),
                      sessionRun := \<lambda>tr command input. (Some exit1, [])\<rparr>)
            ''abc'' ''director.yml'' (ssh0, world0) = Returned (ssh0, w'))"
proof -
  let ?e1 = "env_ok\<lparr>newSession := \<lambda>tr. Some refused\<rparr>"
  let ?e2 = "env_ok\<lparr>stdinLimit := \<lambda>tr. Some (0, GoError False ''EOF''),
                      sessionRun := \<lambda>tr command input. (Some exit1, [])\<rparr>"
  have a: "Error ssh0 = None" by (simp add: ssh0_def)
  have b: "newSession ?e1 (trace world0) = Some refused" by simp
  have c: "newSession ?e2 (trace world0) = None" "StdinPipe ?e2 (trace world0 @ [NewSession None]) = None"
    by (simp_all add: env_ok_def)
  from SendData_keeps_slot_empty [OF a, of ?e1 world0 refused "''abc''" "''director.yml''"]
       SendData_keeps_slot_empty [OF a, of ?e2 world0 refused "''abc''" "''director.yml''"]
       a b c
  show ?thesis by simp
qed

section \<open>The follow-up on linux\<close>

lemma files_bosh_Output [simp]: "files (bosh_Output env args w) = files w"
  by (simp add: bosh_Output_def)

lemma ReadFile_files_cong:
  "files w' = files w \<Longrightarrow> ReadFile env path w' = ReadFile env path w"
  by (simp add: ReadFile_def split: option.splits)

lemma cli_irrelevant_ops:
  "SendData (env\<lparr>boshOutput := cli\<rparr>) = SendData env"
  "SendFile (env\<lparr>boshOutput := cli\<rparr>) = SendFile env"
  "Run (env\<lparr>boshOutput := cli\<rparr>) = Run env"
  "RetrieveFile (env\<lparr>boshOutput := cli\<rparr>) = RetrieveFile env"
  "ReadFile (env\<lparr>boshOutput := cli\<rparr>) = ReadFile env"
  "WriteFile (env\<lparr>boshOutput := cli\<rparr>) = WriteFile env"
  "Create (env\<lparr>boshOutput := cli\<rparr>) = Create env"
  "NewSSH (env\<lparr>boshOutput := cli\<rparr>) = NewSSH env"
proof -
  have dl: "dialLoop (env\<lparr>boshOutput := cli\<rparr>) addr n err w = dialLoop env addr n err w"
    for addr n err w
    by (induction n arbitrary: err w) (simp_all split: option.splits)
  show rd: "ReadFile (env\<lparr>boshOutput := cli\<rparr>) = ReadFile env"
    by (simp add: fun_eq_iff ReadFile_def)
  show "WriteFile (env\<lparr>boshOutput := cli\<rparr>) = WriteFile env"
    by (simp add: fun_eq_iff WriteFile_def)
  show cr: "Create (env\<lparr>boshOutput := cli\<rparr>) = Create env"
    by (simp add: fun_eq_iff Create_def)
  have wr: "writer (env\<lparr>boshOutput := cli\<rparr>) = writer env"
    by (simp add: fun_eq_iff writer_def split: option.splits)
  have sr: "session_Run (env\<lparr>boshOutput := cli\<rparr>) = session_Run env"
    by (simp add: fun_eq_iff session_Run_def)
  show sd: "SendData (env\<lparr>boshOutput := cli\<rparr>) = SendData env"
    unfolding fun_eq_iff SendData_def wr sr
    by (simp cong: sum.case_cong option.case_cong)
  show "SendFile (env\<lparr>boshOutput := cli\<rparr>) = SendFile env"
    unfolding fun_eq_iff SendFile_def sd rd
    by (simp cong: sum.case_cong option.case_cong)
  show "Run (env\<lparr>boshOutput := cli\<rparr>) = Run env"
    unfolding fun_eq_iff Run_def sr
    by (simp cong: sum.case_cong option.case_cong)
  show "RetrieveFile (env\<lparr>boshOutput := cli\<rparr>) = RetrieveFile env"
    unfolding fun_eq_iff RetrieveFile_def sr cr
    by (simp cong: sum.case_cong option.case_cong)
  show "NewSSH (env\<lparr>boshOutput := cli\<rparr>) = NewSSH env"
    by (simp add: fun_eq_iff NewSSH_def waitForSSH_def dl cong: option.case_cong)
qed

lemma WriteFile_cases:
  "WriteFile env path data w =
     (case writeFault env path of
        Some err \<Rightarrow> Inl err
      | None \<Rightarrow> Inr (w\<lparr>files := (files w)(path \<mapsto> data)\<rparr>))"
  by (simp add: WriteFile_def)

lemma DeployBosh_linux_error:
  "fst (DeployBosh_linux env c w) =
     (case ReadFile env (Join [StateBosh c, ''cloud-config.yml'']) w of
        Inl err \<Rightarrow> Some err
      | Inr cloudConfigContents \<Rightarrow>
          (case writeFault env (Join [StateBosh c, ''cloud-config.yml'']) of
             Some err \<Rightarrow> Some err
           | None \<Rightarrow>
               (case ReadFile env (Join [StateBosh c, ''dns.yml''])
                       (w\<lparr>files := (files w)(Join [StateBosh c, ''cloud-config.yml''] \<mapsto>
                            Replace cloudConfigContents vpnkitNameserverIP kvmNameserverIP)\<rparr>) of
                  Inl err \<Rightarrow> Some err
                | Inr dnsConfigContents \<Rightarrow> writeFault env (Join [StateBosh c, ''dns.yml'']))))"
proof (cases "ReadFile env (Join [StateBosh c, ''cloud-config.yml'']) w")
  case (Inl err)
  then show ?thesis by (simp add: DeployBosh_linux_def Let_def del: Join.simps)
next
  case r1: (Inr cc)
  show ?thesis
  proof (cases "writeFault env (Join [StateBosh c, ''cloud-config.yml''])")
    case (Some err)
    with r1 show ?thesis by (simp add: DeployBosh_linux_def WriteFile_def Let_def del: Join.simps)
  next
    case w1: None
    let ?w1 = "w\<lparr>files := (files w)(Join [StateBosh c, ''cloud-config.yml''] \<mapsto>
                 Replace cc vpnkitNameserverIP kvmNameserverIP)\<rparr>"
    let ?w2 = "bosh_Output env [''-n'', ''update-cloud-config'',
                 Join [StateBosh c, ''cloud-config.yml'']] ?w1"
    have rd: "ReadFile env (Join [StateBosh c, ''dns.yml'']) ?w2 =
              ReadFile env (Join [StateBosh c, ''dns.yml'']) ?w1"
      by (rule ReadFile_files_cong) simp
    show ?thesis
    proof (cases "ReadFile env (Join [StateBosh c, ''dns.yml'']) ?w1")
      case (Inl err)
      with r1 w1 rd show ?thesis
        by (simp add: DeployBosh_linux_def WriteFile_def Let_def del: Join.simps)
    next
      case r2: (Inr dns)
      show ?thesis
      proof (cases "writeFault env (Join [StateBosh c, ''dns.yml''])")
        case None
        with r1 w1 rd r2 show ?thesis
          by (simp add: DeployBosh_linux_def WriteFile_def Let_def del: Join.simps)
      next
        case (Some err)
        with r1 w1 rd r2 show ?thesis
          by (simp add: DeployBosh_linux_def WriteFile_def Let_def del: Join.simps)
      qed
    qed
  qed
qed

lemma DeployBosh_linux_cli:
  "fst (DeployBosh_linux (env\<lparr>boshOutput := cli\<rparr>) c w) = fst (DeployBosh_linux env c w)"
  unfolding DeployBosh_linux_error cli_irrelevant_ops
  by (simp cong: sum.case_cong option.case_cong del: Join.simps)

lemma outcomeError_obind:
  "outcomeError (obind m f) =
     (case m of Returned x \<Rightarrow> outcomeError (f x) | Crashed w \<Rightarrow> None)"
  by (simp add: obind_def outcomeError_def split: outcome.splits)

lemma outcomeError_obind_cong:
  "(\<And>x. outcomeError (f x) = outcomeError (g x)) \<Longrightarrow>
   outcomeError (obind m f) = outcomeError (obind m g)"
  by (simp add: outcomeError_obind split: outcome.splits)

lemma DeployBosh_session_cli:
  "outcomeError (DeployBosh_session (env\<lparr>boshOutput := cli\<rparr>) goos c ip sw) =
   outcomeError (DeployBosh_session env goos c ip sw)"
proof (cases "ReadFile env (Join [StateBosh c, ''director.yml'']) (snd sw)")
  case (Inl err)
  then show ?thesis
    by (simp add: DeployBosh_session_def cli_irrelevant_ops Let_def)
next
  case (Inr directorContents)
  have last_step:
    "outcomeError
       (case Error (fst sw5) of
          Some err \<Rightarrow> Returned (Some err, snd sw5)
        | None \<Rightarrow>
            if goos = ''linux''
            then Returned (DeployBosh_linux (env\<lparr>boshOutput := cli\<rparr>) c (snd sw5))
            else Returned (None, snd sw5)) =
     outcomeError
       (case Error (fst sw5) of
          Some err \<Rightarrow> Returned (Some err, snd sw5)
        | None \<Rightarrow>
            if goos = ''linux'' then Returned (DeployBosh_linux env c (snd sw5))
            else Returned (None, snd sw5))" for sw5 :: "SSH \<times> world"
    using DeployBosh_linux_cli [where env = env and cli = cli and c = c and w = "snd sw5"]
    by (cases "DeployBosh_linux (env\<lparr>boshOutput := cli\<rparr>) c (snd sw5)";
        cases "DeployBosh_linux env c (snd sw5)")
       (simp add: outcomeError_def split: option.splits)
  show ?thesis
    unfolding DeployBosh_session_def cli_irrelevant_ops Let_def Inr sum.case
    apply (rule outcomeError_obind_cong)
    apply (rule outcomeError_obind_cong)
    apply (rule outcomeError_obind_cong)
    apply (simp only: split_beta last_step)
    done
qed

lemma DeployBosh_cli:
  "outcomeError (DeployBosh (env\<lparr>boshOutput := cli\<rparr>) goos c w) =
   outcomeError (DeployBosh env goos c w)"
proof -
  have close: "outcomeError (obind m (\<lambda>(r, w3). Returned (r, Close s w3))) = outcomeError m"
    for m s
    by (simp add: outcomeError_def obind_def split: outcome.splits prod.splits)
  show ?thesis
    unfolding DeployBosh_def cli_irrelevant_ops
    by (simp add: close DeployBosh_session_cli split: sum.splits prod.splits)
qed

lemma paths0:
  "Join [StateBosh cfg0, ''cloud-config.yml''] = ''/state/cloud-config.yml''"
  "Join [StateBosh cfg0, ''dns.yml''] = ''/state/dns.yml''"
  "Join [StateBosh cfg0, ''creds.yml''] = ''/state/creds.yml''"
  "Join [StateBosh cfg0, ''director.yml''] = ''/state/director.yml''"
  "Join [StateBosh cfg0, ''state.json''] = ''/state/state.json''"
  "Join [StateDir cfg0, ''id_rsa''] = ''/home/id_rsa''"
  "Join [LogDir cfg0, ''deploy-bosh.log''] = ''/log/deploy-bosh.log''"
  by (simp_all add: cfg0_def Clean_def isSep_def)

lemma dialLoop_first:
  "0 < n \<Longrightarrow> sshDial env (trace w) addr = None \<Longrightarrow>
   dialLoop env addr n err w = ((Some addr, None), emit (Dial addr None) w)"
  by (cases n) simp_all

lemma linux_run:
  "DeployBosh_linux (env_ok\<lparr>boshOutput := \<lambda>tr args. Some exit1\<rparr>) cfg0 world1 =
     (None,
      \<lparr>files = [''/home/id_rsa'' \<mapsto> ''key'',
               ''/state/director.yml'' \<mapsto> ''mbus: 192.168.65.3:9999 dns: 192.168.65.1'',
               ''/state/state.json'' \<mapsto> ''{}'',
               ''/state/cloud-config.yml'' \<mapsto> ''dns: 192.168.122.1'',
               ''/state/dns.yml'' \<mapsto> ''host: 192.168.122.1''],
       trace = [BoshOutput [''-n'', ''update-cloud-config'', ''/state/cloud-config.yml''] (Some exit1),
                BoshOutput [''-n'', ''update-runtime-config'', ''/state/dns.yml''] (Some exit1)]\<rparr>)"
  unfolding DeployBosh_linux_def paths0 Let_def
  by (simp add: ReadFile_def WriteFile_def env_ok_def world1_def bosh_Output_def emit_def
      vpnkitNameserverIP_def vpnkitHostIP_def kvmNameserverIP_def Replace.simps fun_upd_twist)

lemma env_ok_fields:
  "ParsePrivateKey (env_ok\<lparr>boshOutput := cli\<rparr>) = (\<lambda>key. None)"
  "sshDial (env_ok\<lparr>boshOutput := cli\<rparr>) = (\<lambda>tr addr. None)"
  "selectTicks (env_ok\<lparr>boshOutput := cli\<rparr>) = (\<lambda>timeout. timeout div Second)"
  "newSession (env_ok\<lparr>boshOutput := cli\<rparr>) = (\<lambda>tr. None)"
  "StdinPipe (env_ok\<lparr>boshOutput := cli\<rparr>) = (\<lambda>tr. None)"
  "stdinLimit (env_ok\<lparr>boshOutput := cli\<rparr>) = (\<lambda>tr. None)"
  "sessionRun (env_ok\<lparr>boshOutput := cli\<rparr>) = (\<lambda>tr command input. (None, []))"
  "readFault (env_ok\<lparr>boshOutput := cli\<rparr>) = (\<lambda>path. None)"
  "createFault (env_ok\<lparr>boshOutput := cli\<rparr>) = (\<lambda>path. None)"
  "writeFault (env_ok\<lparr>boshOutput := cli\<rparr>) = (\<lambda>path. None)"
  "driverIP (env_ok\<lparr>boshOutput := cli\<rparr>) = Inr ''10.0.0.5''"
  "boshOutput (env_ok\<lparr>boshOutput := cli\<rparr>) = cli"
  by (simp_all add: env_ok_def)

lemma full_run:
  "outcomeError (DeployBosh (env_ok\<lparr>boshOutput := \<lambda>tr args. Some exit1\<rparr>) ''linux'' cfg0 world1)
     = Some None"
  unfolding DeployBosh_def paths0 DeployBosh_session_def DeployBosh_linux_def Let_def
  by (simp add: NewSSH_def waitForSSH_def dialLoop_first Second_def
      ReadFile_def WriteFile_def Create_def env_ok_fields world1_def
      bosh_Output_def emit_def SendData_def SendFile_def Run_def RetrieveFile_def
      session_Run_def writer_def obind_def outcomeError_def credhubIsDeployed_def Stat_def
      IsNotExist_def ErrNotExist_def Close_def scpWrites_def pipeWrite_def)

text \<open>
  C8: the errors of the two \<open>boshRunner.Output\<close> calls never reach the result of
  \<open>DeployBosh\<close>. In the linux block, when the two reads and the two writes of
  local files succeed, the block returns nil whatever the two invocations return; and
  the error \<open>DeployBosh\<close> returns is the same under every behaviour of the
  command-line tool.
\<close>

theorem cli_failures_not_threaded:
  "(readFault env (Join [StateBosh c, ''cloud-config.yml'']) = None \<and>
    files w (Join [StateBosh c, ''cloud-config.yml'']) = Some cc \<and>
    writeFault env (Join [StateBosh c, ''cloud-config.yml'']) = None \<and>
    readFault env (Join [StateBosh c, ''dns.yml'']) = None \<and>
    files w (Join [StateBosh c, ''dns.yml'']) = Some dd \<and>
    writeFault env (Join [StateBosh c, ''dns.yml'']) = None
      \<longrightarrow> fst (DeployBosh_linux (env\<lparr>boshOutput := cli\<rparr>) c w) = None) \<and>
   outcomeError (DeployBosh (env\<lparr>boshOutput := cli\<rparr>) goos c w) =
     outcomeError (DeployBosh env goos c w)"
proof -
  have "fst (DeployBosh_linux (env\<lparr>boshOutput := cli\<rparr>) c w) = None"
    if a: "readFault env (Join [StateBosh c, ''cloud-config.yml'']) = None"
      and b: "files w (Join [StateBosh c, ''cloud-config.yml'']) = Some cc"
      and c: "writeFault env (Join [StateBosh c, ''cloud-config.yml'']) = None"
      and d: "readFault env (Join [StateBosh c, ''dns.yml'']) = None"
      and e: "files w (Join [StateBosh c, ''dns.yml'']) = Some dd"
      and f: "writeFault env (Join [StateBosh c, ''dns.yml'']) = None"
  proof -
    have r1: "ReadFile env (Join [StateBosh c, ''cloud-config.yml'']) w = Inr cc"
      using a b by (simp add: ReadFile_def del: Join.simps)
    have r2: "\<exists>x. ReadFile env (Join [StateBosh c, ''dns.yml''])
                (w\<lparr>files := (files w)(Join [StateBosh c, ''cloud-config.yml''] \<mapsto>
                     Replace cc vpnkitNameserverIP kvmNameserverIP)\<rparr>) = Inr x"
      using d e by (simp add: ReadFile_def del: Join.simps)
    then obtain x where r2': "ReadFile env (Join [StateBosh c, ''dns.yml''])
                (w\<lparr>files := (files w)(Join [StateBosh c, ''cloud-config.yml''] \<mapsto>
                     Replace cc vpnkitNameserverIP kvmNameserverIP)\<rparr>) = Inr x" ..
    have "fst (DeployBosh_linux (env\<lparr>boshOutput := cli\<rparr>) c w) = fst (DeployBosh_linux env c w)"
      by (rule DeployBosh_linux_cli)
    also have "\<dots> = None"
      unfolding DeployBosh_linux_error
      using r1 r2' c f by (simp del: Join.simps)
    finally show ?thesis .
  qed
  moreover have "outcomeError (DeployBosh (env\<lparr>boshOutput := cli\<rparr>) goos c w) =
     outcomeError (DeployBosh env goos c w)"
    by (rule DeployBosh_cli)
  ultimately show ?thesis by (simp del: Join.simps)
qed


theorem cli_failures_not_threaded_witness:
  "readFault env_ok (Join [StateBosh cfg0, ''cloud-config.yml'']) = None \<and>
   files world1 (Join [StateBosh cfg0, ''cloud-config.yml'']) = Some ''dns: 192.168.65.1'' \<and>
   writeFault env_ok (Join [StateBosh cfg0, ''cloud-config.yml'']) = None \<and>
   readFault env_ok (Join [StateBosh cfg0, ''dns.yml'']) = None \<and>
   files world1 (Join [StateBosh cfg0, ''dns.yml'']) = Some ''host: 192.168.65.2'' \<and>
   writeFault env_ok (Join [StateBosh cfg0, ''dns.yml'']) = None \<and>
   fst (DeployBosh_linux (env_ok\<lparr>boshOutput := \<lambda>tr args. Some exit1\<rparr>) cfg0 world1) = None \<and>
   outcomeError (DeployBosh (env_ok\<lparr>boshOutput := \<lambda>tr args. Some exit1\<rparr>) ''linux'' cfg0 world1) =
     outcomeError (DeployBosh env_ok ''linux'' cfg0 world1) \<and>
   outcomeError (DeployBosh (env_ok\<lparr>boshOutput := \<lambda>tr args. Some exit1\<rparr>) ''linux'' cfg0 world1) =
     Some None"
proof -
  have h: "readFault env_ok (Join [StateBosh cfg0, ''cloud-config.yml'']) = None"
    "files world1 (Join [StateBosh cfg0, ''cloud-config.yml'']) = Some ''dns: 192.168.65.1''"
    "writeFault env_ok (Join [StateBosh cfg0, ''cloud-config.yml'']) = None"
    "readFault env_ok (Join [StateBosh cfg0, ''dns.yml'']) = None"
    "files world1 (Join [StateBosh cfg0, ''dns.yml'']) = Some ''host: 192.168.65.2''"
    "writeFault env_ok (Join [StateBosh cfg0, ''dns.yml'']) = None"
    unfolding paths0 by (simp_all add: env_ok_def world1_def)
  from cli_failures_not_threaded
         [of env_ok cfg0 world1 "''dns: 192.168.65.1''" "''host: 192.168.65.2''"
             "\<lambda>tr args. Some exit1" "''linux''"]
       h full_run
  show ?thesis by (simp del: Join.simps)
qed

section \<open>The credentials mode of DeployBosh\<close>






























lemma trace_bosh_Output [simp]:
  "trace (bosh_Output env args w) = trace w @ [BoshOutput args (boshOutput env (trace w) args)]"
  by (simp add: bosh_Output_def)
















section \<open>The service wrapper\<close>



end
